theory Spec2Isabelle
  imports Main
begin

section \<open>Configuration\<close>

text \<open>
  The constants at the top of \<^verbatim>\<open>Untitled-1.py\<close>. Durations are in seconds.
\<close>

definition NORMAL_CODE :: string where
  "NORMAL_CODE = ''1234''"

definition LOCKDOWN_CODE :: string where
  "LOCKDOWN_CODE = ''9999''"

definition WINDOW_UNLOCK_TIME :: nat where
  "WINDOW_UNLOCK_TIME = 15"

definition WINDOW_INTERVAL :: nat where
  "WINDOW_INTERVAL = 30"

definition TEMP_UNLOCK_TIME :: nat where
  "TEMP_UNLOCK_TIME = 10"

definition KEY_MAP :: "char list list" where
  "KEY_MAP = [''123A'', ''456B'', ''789C'', ''*0#D'']"

section \<open>Hardware and console\<close>

text \<open>
  \<^verbatim>\<open>GPIO.LOW\<close> and \<^verbatim>\<open>GPIO.HIGH\<close>. On \<^verbatim>\<open>RELAY_PIN\<close>, \<open>LOW\<close> is the locked
  actuator and \<open>HIGH\<close> the unlocked one.
\<close>

datatype level = LOW | HIGH

text \<open>
  What the program does to the outside, in the order it does it: a write to the relay
  pin, a line printed on the console, a \<^verbatim>\<open>time.sleep\<close> made while the state lock is
  held.
\<close>

datatype event = Relay level | Print string | Sleep nat

section \<open>System states\<close>

definition LOCKDOWN :: string where
  "LOCKDOWN = ''LOCKDOWN''"

definition WINDOW :: string where
  "WINDOW = ''WINDOW''"

definition NORMAL :: string where
  "NORMAL = ''NORMAL''"

text \<open>
  The fields of class \<^verbatim>\<open>Lockbox\<close>. The field \<^verbatim>\<open>state_lock\<close> is a mutex: every
  method body runs inside \<^verbatim>\<open>with self.state_lock\<close>, so each method is one atomic
  function on the state.
\<close>

record lockbox =
  state :: string
  lockdown_active :: bool
  window_active :: bool

text \<open>
  The lockbox object together with what its methods act on: the level of the relay pin
  and the trace of events so far.
\<close>

record world =
  box :: lockbox
  relay_pin :: level
  events :: "event list"

text \<open>\<^verbatim>\<open>GPIO.output(RELAY_PIN, v)\<close>, \<^verbatim>\<open>print(line)\<close> and \<^verbatim>\<open>time.sleep(n)\<close>.\<close>

definition GPIO_output_relay :: "level \<Rightarrow> world \<Rightarrow> world" where
  "GPIO_output_relay v w = w\<lparr>relay_pin := v, events := events w @ [Relay v]\<rparr>"

definition print :: "string \<Rightarrow> world \<Rightarrow> world" where
  "print line w = w\<lparr>events := events w @ [Print line]\<rparr>"

definition sleep :: "nat \<Rightarrow> world \<Rightarrow> world" where
  "sleep n w = w\<lparr>events := events w @ [Sleep n]\<rparr>"

text \<open>The decimal digits of a number, as an f-string writes \<^verbatim>\<open>{N}\<close>.\<close>

fun str_nat :: "nat \<Rightarrow> string" where
  "str_nat n =
     (if n < 10 then [char_of (48 + n)]
      else str_nat (n div 10) @ [char_of (48 + n mod 10)])"

declare str_nat.simps [simp del]

text \<open>The arrow U+2192 of the log lines, as the three bytes the console receives.\<close>

definition arrow :: string where
  "arrow = [CHR 0xE2, CHR 0x86, CHR 0x92]"

section \<open>Relay control\<close>

definition RelayControl_lock :: "world \<Rightarrow> world" where
  "RelayControl_lock w = GPIO_output_relay LOW w"

definition RelayControl_unlock :: "world \<Rightarrow> world" where
  "RelayControl_unlock w = GPIO_output_relay HIGH w"

section \<open>Lockbox\<close>

text \<open>\<^verbatim>\<open>Lockbox.__init__\<close>.\<close>

definition Lockbox_init :: lockbox where
  "Lockbox_init = \<lparr>state = NORMAL, lockdown_active = False, window_active = False\<rparr>"

text \<open>
  The world when the threads start: the one lockbox that \<^verbatim>\<open>main\<close> creates, the relay
  pin as \<^verbatim>\<open>GPIO.setup(RELAY_PIN, GPIO.OUT, initial=GPIO.LOW)\<close> leaves it, nothing
  printed yet.
\<close>

definition world_init :: world where
  "world_init = \<lparr>box = Lockbox_init, relay_pin = LOW, events = []\<rparr>"

definition enter_lockdown :: "world \<Rightarrow> world" where
  "enter_lockdown w =
     print ''[STATE] LOCKDOWN''
       (RelayControl_lock
         (w\<lparr>box := (box w)\<lparr>state := LOCKDOWN, lockdown_active := True\<rparr>\<rparr>))"

definition exit_lockdown :: "world \<Rightarrow> world" where
  "exit_lockdown w =
     print (''[STATE] LOCKDOWN CLEARED '' @ arrow @ '' NORMAL MODE'')
       (RelayControl_lock
         (w\<lparr>box := (box w)\<lparr>state := NORMAL, lockdown_active := False\<rparr>\<rparr>))"

definition trigger_window_unlock :: "world \<Rightarrow> world" where
  "trigger_window_unlock w =
     (if \<not> lockdown_active (box w) then
        print (''[STATE] WINDOW UNLOCK for '' @ str_nat WINDOW_UNLOCK_TIME @ '' seconds'')
          (RelayControl_unlock
            (w\<lparr>box := (box w)\<lparr>window_active := True, state := WINDOW\<rparr>\<rparr>))
      else w)"

definition end_window_unlock :: "world \<Rightarrow> world" where
  "end_window_unlock w =
     print (''[STATE] WINDOW CLOSED '' @ arrow @ '' NORMAL MODE'')
       (RelayControl_lock
         (w\<lparr>box := (box w)\<lparr>window_active := False, state := NORMAL\<rparr>\<rparr>))"

text \<open>
  \<^verbatim>\<open>temporary_unlock\<close> sleeps inside the lock, so no other method runs between its
  unlock and its relock: the whole body is one step.
\<close>

definition temporary_unlock :: "world \<Rightarrow> world" where
  "temporary_unlock w =
     (if lockdown_active (box w) then
        print ''[INFO] LOCKDOWN ACTIVE - IGNORING NORMAL UNLOCK'' w
      else if window_active (box w) then
        print ''[INFO] WINDOW UNLOCK ACTIVE - NO NEED FOR TEMPORARY UNLOCK'' w
      else
        print (''[STATE] TEMPORARY UNLOCK ENDED '' @ arrow @ '' NORMAL MODE'')
          (RelayControl_lock
            (sleep TEMP_UNLOCK_TIME
              (print (''[STATE] TEMPORARY UNLOCK for '' @ str_nat TEMP_UNLOCK_TIME @ '' seconds'')
                (RelayControl_unlock w)))))"

section \<open>The threads\<close>

text \<open>
  Where \<^verbatim>\<open>WindowModeThread.run\<close> stands between two of its steps: in
  \<^verbatim>\<open>time.sleep(WINDOW_INTERVAL)\<close>, about to read \<^verbatim>\<open>lockdown_active\<close>; past that
  read (it was false), about to call \<^verbatim>\<open>trigger_window_unlock\<close>; in
  \<^verbatim>\<open>time.sleep(WINDOW_UNLOCK_TIME)\<close>, about to call \<^verbatim>\<open>end_window_unlock\<close>.
\<close>

datatype wm_loc = WM_Interval | WM_Trigger | WM_Open

text \<open>
  The shared world, the buffer of \<^verbatim>\<open>StateMachineThread\<close> and the position of
  \<^verbatim>\<open>WindowModeThread\<close>.
\<close>

record system =
  shared :: world
  buffer :: string
  wm_at :: wm_loc

text \<open>\<^verbatim>\<open>StateMachineThread.process_code\<close>, on the buffer it reads.\<close>

definition process_code :: "string \<Rightarrow> world \<Rightarrow> world" where
  "process_code buf w =
     (if buf = LOCKDOWN_CODE then
        (if lockdown_active (box w) then exit_lockdown w else enter_lockdown w)
      else if buf = NORMAL_CODE then temporary_unlock w
      else print ''[INFO] INVALID CODE'' w)"

text \<open>
  One turn of the loop of \<^verbatim>\<open>StateMachineThread.run\<close>, for the key taken from the
  queue. A key is one character of \<open>KEY_MAP\<close>.
\<close>

definition StateMachineThread_step :: "char \<Rightarrow> system \<Rightarrow> system" where
  "StateMachineThread_step key s =
     (let s1 = s\<lparr>shared := print (''[KEY] '' @ [key]) (shared s)\<rparr> in
      if key = CHR ''*'' then
        s1\<lparr>buffer := [], shared := print ''[BUFFER CLEARED]'' (shared s1)\<rparr>
      else
        let s2 = s1\<lparr>buffer := buffer s1 @ [key]\<rparr> in
        if length (buffer s2) \<ge> 4 then
          s2\<lparr>shared := process_code (buffer s2) (shared s2), buffer := []\<rparr>
        else s2)"

text \<open>One step of \<^verbatim>\<open>WindowModeThread.run\<close>, from one position to the next.\<close>

definition WindowModeThread_step :: "system \<Rightarrow> system" where
  "WindowModeThread_step s =
     (case wm_at s of
        WM_Interval \<Rightarrow>
          if \<not> lockdown_active (box (shared s)) then s\<lparr>wm_at := WM_Trigger\<rparr> else s
      | WM_Trigger \<Rightarrow> s\<lparr>shared := trigger_window_unlock (shared s), wm_at := WM_Open\<rparr>
      | WM_Open \<Rightarrow> s\<lparr>shared := end_window_unlock (shared s), wm_at := WM_Interval\<rparr>)"

text \<open>
  Which thread moves next: the state machine thread receives a key, or the window thread
  takes its next step. A list of ticks is one interleaving of the two threads.
\<close>

datatype tick = Key char | Window

fun step :: "tick \<Rightarrow> system \<Rightarrow> system" where
  "step (Key k) s = StateMachineThread_step k s"
| "step Window s = WindowModeThread_step s"

fun exec :: "tick list \<Rightarrow> system \<Rightarrow> system" where
  "exec [] s = s"
| "exec (t # ts) s = exec ts (step t s)"

text \<open>\<^verbatim>\<open>main\<close>: one lockbox, an empty buffer, the window thread at its first sleep.\<close>

definition system_init :: system where
  "system_init = \<lparr>shared = world_init, buffer = [], wm_at = WM_Interval\<rparr>"

section \<open>Auxiliary notions\<close>

text \<open>The five transition methods of \<^verbatim>\<open>Lockbox\<close>, by name.\<close>

datatype transition =
  EnterLockdown | ExitLockdown | TriggerWindowUnlock | EndWindowUnlock | TemporaryUnlock

fun apply_transition :: "transition \<Rightarrow> world \<Rightarrow> world" where
  "apply_transition EnterLockdown w = enter_lockdown w"
| "apply_transition ExitLockdown w = exit_lockdown w"
| "apply_transition TriggerWindowUnlock w = trigger_window_unlock w"
| "apply_transition EndWindowUnlock w = end_window_unlock w"
| "apply_transition TemporaryUnlock w = temporary_unlock w"

text \<open>The keys of a schedule, in order, with the steps of the window thread left out.\<close>

fun keys_of :: "tick list \<Rightarrow> string" where
  "keys_of [] = []"
| "keys_of (Key k # ts) = k # keys_of ts"
| "keys_of (Window # ts) = keys_of ts"

text \<open>
  What does hold of the mode and the flags in every world the threads can reach: the
  mode is one of the three constants, mode \<open>LOCKDOWN\<close> has the lockdown flag set, mode
  \<open>WINDOW\<close> has the window flag set and the lockdown flag clear, and the relay is
  unlocked exactly in mode \<open>WINDOW\<close>.
\<close>

definition consistent :: "world \<Rightarrow> bool" where
  "consistent w \<longleftrightarrow>
     state (box w) \<in> {NORMAL, WINDOW, LOCKDOWN} \<and>
     (state (box w) = LOCKDOWN \<longrightarrow> lockdown_active (box w)) \<and>
     (state (box w) = WINDOW \<longrightarrow> window_active (box w) \<and> \<not> lockdown_active (box w)) \<and>
     (relay_pin w = HIGH \<longleftrightarrow> state (box w) = WINDOW)"

section \<open>Basic facts\<close>

lemma state_names_distinct [simp]:
  "NORMAL \<noteq> WINDOW" "WINDOW \<noteq> NORMAL" "NORMAL \<noteq> LOCKDOWN"
  "LOCKDOWN \<noteq> NORMAL" "WINDOW \<noteq> LOCKDOWN" "LOCKDOWN \<noteq> WINDOW"
  by (simp_all add: NORMAL_def WINDOW_def LOCKDOWN_def)

lemma codes_distinct [simp]: "LOCKDOWN_CODE \<noteq> NORMAL_CODE" "NORMAL_CODE \<noteq> LOCKDOWN_CODE"
  by (simp_all add: NORMAL_CODE_def LOCKDOWN_CODE_def)

lemmas prim_defs =
  GPIO_output_relay_def print_def sleep_def RelayControl_lock_def RelayControl_unlock_def

lemmas op_defs =
  enter_lockdown_def exit_lockdown_def trigger_window_unlock_def end_window_unlock_def
  temporary_unlock_def

lemma exec_append: "exec (xs @ ys) s = exec ys (exec xs s)"
  by (induction xs arbitrary: s) simp_all

subsection \<open>The mode and the flags in reachable states\<close>

lemma consistent_world_init: "consistent world_init"
  by (simp add: consistent_def world_init_def Lockbox_init_def)

lemma consistent_print [simp]: "consistent (print line w) = consistent w"
  by (simp add: consistent_def print_def)

lemma consistent_enter_lockdown: "consistent (enter_lockdown w)"
  by (simp add: consistent_def enter_lockdown_def prim_defs)

lemma consistent_exit_lockdown: "consistent (exit_lockdown w)"
  by (simp add: consistent_def exit_lockdown_def prim_defs)

lemma consistent_end_window_unlock: "consistent (end_window_unlock w)"
  by (simp add: consistent_def end_window_unlock_def prim_defs)

lemma consistent_trigger_window_unlock:
  "consistent w \<Longrightarrow> consistent (trigger_window_unlock w)"
  by (auto simp add: consistent_def trigger_window_unlock_def prim_defs)

lemma consistent_temporary_unlock:
  "consistent w \<Longrightarrow> consistent (temporary_unlock w)"
  by (auto simp add: consistent_def temporary_unlock_def prim_defs)

lemma consistent_process_code:
  "consistent w \<Longrightarrow> consistent (process_code buf w)"
  by (simp add: process_code_def consistent_enter_lockdown consistent_exit_lockdown
      consistent_temporary_unlock)

lemma consistent_step: "consistent (shared s) \<Longrightarrow> consistent (shared (step t s))"
proof (cases t)
  case (Key k)
  assume "consistent (shared s)"
  then show ?thesis
    by (simp add: Key StateMachineThread_step_def Let_def consistent_process_code)
next
  case Window
  assume "consistent (shared s)"
  then show ?thesis
    by (cases "wm_at s")
      (simp_all add: Window WindowModeThread_step_def consistent_trigger_window_unlock
        consistent_end_window_unlock)
qed

lemma consistent_exec: "consistent (shared s) \<Longrightarrow> consistent (shared (exec ts s))"
  by (induction ts arbitrary: s) (simp_all add: consistent_step)

lemma consistent_reachable: "consistent (shared (exec ts system_init))"
  by (rule consistent_exec) (simp add: system_init_def consistent_world_init)

subsection \<open>The buffer in reachable states\<close>

lemma buffer_step:
  "length (buffer s) < 4 \<and> CHR ''*'' \<notin> set (buffer s) \<Longrightarrow>
   length (buffer (step t s)) < 4 \<and> CHR ''*'' \<notin> set (buffer (step t s))"
  by (cases t; cases "wm_at s")
    (auto simp add: StateMachineThread_step_def WindowModeThread_step_def Let_def)

lemma buffer_exec:
  "length (buffer s) < 4 \<and> CHR ''*'' \<notin> set (buffer s) \<Longrightarrow>
   length (buffer (exec ts s)) < 4 \<and> CHR ''*'' \<notin> set (buffer (exec ts s))"
proof (induction ts arbitrary: s)
  case Nil
  then show ?case by simp
next
  case (Cons t ts)
  from Cons.prems have "length (buffer (step t s)) < 4 \<and> CHR ''*'' \<notin> set (buffer (step t s))"
    by (rule buffer_step)
  then show ?case using Cons.IH by simp
qed

lemma buffer_reachable:
  "length (buffer (exec ts system_init)) < 4 \<and> CHR ''*'' \<notin> set (buffer (exec ts system_init))"
  by (rule buffer_exec) (simp add: system_init_def)

subsection \<open>Every step is a transition of the lockbox\<close>

lemma box_print [simp]: "box (print line w) = box w"
  by (simp add: print_def)






lemma wm_at_keys: "wm_at (exec (map Key ks) s) = wm_at s"
  by (induction ks arbitrary: s) (simp_all add: StateMachineThread_step_def Let_def)

lemmas init_defs = system_init_def world_init_def Lockbox_init_def

lemmas thread_defs =
  StateMachineThread_step_def WindowModeThread_step_def process_code_def Let_def

subsection \<open>One step is at most one transition\<close>



lemma no_transition_recreates:
  "box (apply_transition tr (enter_lockdown (trigger_window_unlock world_init))) \<noteq> Lockbox_init"
  by (cases tr) (simp_all add: op_defs prim_defs init_defs)

subsection \<open>What \<^verbatim>\<open>enter_lockdown\<close> does in any world\<close>

lemma enter_lockdown_effect:
  "state (box (enter_lockdown w)) = LOCKDOWN \<and> lockdown_active (box (enter_lockdown w)) \<and>
   relay_pin (enter_lockdown w) = LOW \<and>
   window_active (box (enter_lockdown w)) = window_active (box w)"
  by (simp add: enter_lockdown_def prim_defs)

subsection \<open>The window thread touches neither the buffer nor the lockdown flag\<close>

text \<open>
  So the buffer and the lockdown flag after a schedule are those after its keys alone, and two
  lockdown codes toggle the lockdown whatever steps the window thread takes among the
  eight keys.
\<close>

lemma lockdown_active_process_code:
  "lockdown_active (box (process_code buf w)) =
     (if buf = LOCKDOWN_CODE then \<not> lockdown_active (box w) else lockdown_active (box w))"
  by (simp add: process_code_def op_defs prim_defs)

lemma keys_step_agree:
  assumes "buffer s = buffer s'"
    and "lockdown_active (box (shared s)) = lockdown_active (box (shared s'))"
  shows "buffer (StateMachineThread_step k s) = buffer (StateMachineThread_step k s') \<and>
         lockdown_active (box (shared (StateMachineThread_step k s))) =
           lockdown_active (box (shared (StateMachineThread_step k s')))"
  using assms by (simp add: StateMachineThread_step_def Let_def lockdown_active_process_code)

lemma window_step_keeps:
  "buffer (WindowModeThread_step s) = buffer s \<and>
   lockdown_active (box (shared (WindowModeThread_step s))) = lockdown_active (box (shared s))"
  by (cases "wm_at s") (simp_all add: WindowModeThread_step_def op_defs prim_defs)

lemma keys_decide_buffer_and_lockdown:
  "buffer s = buffer s' \<Longrightarrow>
   lockdown_active (box (shared s)) = lockdown_active (box (shared s')) \<Longrightarrow>
   buffer (exec sch s) = buffer (exec (map Key (keys_of sch)) s') \<and>
   lockdown_active (box (shared (exec sch s))) =
     lockdown_active (box (shared (exec (map Key (keys_of sch)) s')))"
proof (induction sch arbitrary: s s')
  case Nil
  then show ?case by simp
next
  case (Cons t sch)
  show ?case
  proof (cases t)
    case (Key k)
    have "buffer (step t s) = buffer (step t s') \<and>
        lockdown_active (box (shared (step t s))) = lockdown_active (box (shared (step t s')))"
      using Cons.prems keys_step_agree [of s s' k] by (simp add: Key)
    then show ?thesis
      using Cons.IH [of "step t s" "step t s'"] by (simp add: Key)
  next
    case Window
    have "buffer (step t s) = buffer s' \<and>
        lockdown_active (box (shared (step t s))) = lockdown_active (box (shared s'))"
      using Cons.prems window_step_keeps [of s] by (simp add: Window)
    then show ?thesis
      using Cons.IH [of "step t s" s'] by (simp add: Window)
  qed
qed

lemma seven_nines:
  assumes "buffer s = []" and "\<not> lockdown_active (box (shared s))"
  shows "buffer (exec (map Key ''9999999'') s) = ''999'' \<and>
         lockdown_active (box (shared (exec (map Key ''9999999'') s)))"
proof -
  have four: "exec (map Key ''9999'') s =
      s\<lparr>shared := enter_lockdown (fold (\<lambda>k. print (''[KEY] '' @ [k])) ''9999'' (shared s))\<rparr>"
    using assms by (simp add: thread_defs LOCKDOWN_CODE_def)
  have "exec (map Key ''9999999'') s = exec (map Key ''999'') (exec (map Key ''9999'') s)"
    by simp
  then show ?thesis
    unfolding four using assms(1)
    by (simp add: StateMachineThread_step_def Let_def enter_lockdown_def prim_defs)
qed

lemma toggle_law_interleaved:
  assumes "buffer s = []" and "\<not> lockdown_active (box (shared s))"
    and "keys_of sch = ''9999999''"
  shows "shared (exec (sch @ [Key (CHR ''9'')]) s) =
           exit_lockdown (print ''[KEY] 9'' (shared (exec sch s))) \<and>
         buffer (exec (sch @ [Key (CHR ''9'')]) s) = [] \<and>
         state (box (shared (exec (sch @ [Key (CHR ''9'')]) s))) = NORMAL \<and>
         \<not> lockdown_active (box (shared (exec (sch @ [Key (CHR ''9'')]) s))) \<and>
         relay_pin (shared (exec (sch @ [Key (CHR ''9'')]) s)) = LOW"
proof -
  have "buffer (exec sch s) = buffer (exec (map Key ''9999999'') s) \<and>
      lockdown_active (box (shared (exec sch s))) =
        lockdown_active (box (shared (exec (map Key ''9999999'') s)))"
    using keys_decide_buffer_and_lockdown [of s s sch] assms(3) by simp
  then have before: "buffer (exec sch s) = ''999''"
      "lockdown_active (box (shared (exec sch s)))"
    using seven_nines [OF assms(1,2)] by simp_all
  have "exec (sch @ [Key (CHR ''9'')]) s =
      (exec sch s)\<lparr>shared := exit_lockdown (print ''[KEY] 9'' (shared (exec sch s))),
        buffer := []\<rparr>"
    using before
    by (simp add: exec_append StateMachineThread_step_def Let_def process_code_def
        LOCKDOWN_CODE_def)
  then show ?thesis
    by (simp add: exit_lockdown_def prim_defs)
qed

section \<open>The claims\<close>

lemma str_nat_10: "str_nat 10 = ''10''"
  by code_simp

text \<open>
  C1. The claim: in every reachable state the lockdown flag is set exactly in mode
  \<open>LOCKDOWN\<close>, and a set window flag implies mode \<open>WINDOW\<close> and a clear lockdown flag.
  The code at an interleaving it allows: the window thread reads the lockdown flag and
  opens the window, then the keys \<open>9999\<close> arrive. Now the window flag and the lockdown
  flag are both set and the mode is \<open>LOCKDOWN\<close>. The window thread then closes its
  window: the lockdown flag is still set and the mode is \<open>NORMAL\<close>. What does hold in
  every reachable state is \<open>consistent_reachable\<close>.
\<close>

theorem lockdown_during_window_breaks_mode_flags:
  "window_active (box (shared (exec [Window, Window, Key (CHR ''9''), Key (CHR ''9''),
       Key (CHR ''9''), Key (CHR ''9'')] system_init))) \<and>
   lockdown_active (box (shared (exec [Window, Window, Key (CHR ''9''), Key (CHR ''9''),
       Key (CHR ''9''), Key (CHR ''9'')] system_init))) \<and>
   state (box (shared (exec [Window, Window, Key (CHR ''9''), Key (CHR ''9''),
       Key (CHR ''9''), Key (CHR ''9'')] system_init))) = LOCKDOWN \<and>
   lockdown_active (box (shared (exec [Window, Window, Key (CHR ''9''), Key (CHR ''9''),
       Key (CHR ''9''), Key (CHR ''9''), Window] system_init))) \<and>
   state (box (shared (exec [Window, Window, Key (CHR ''9''), Key (CHR ''9''),
       Key (CHR ''9''), Key (CHR ''9''), Window] system_init))) = NORMAL"
  by (simp add: init_defs thread_defs op_defs prim_defs LOCKDOWN_CODE_def)

text \<open>
  C2. While the lockdown flag is set, \<open>trigger_window_unlock\<close> changes nothing at all
  (no event either), and \<open>temporary_unlock\<close> leaves the mode, both flags and the relay
  pin as they are: all it adds to the trace is one printed line, so no write to the relay.
\<close>

theorem lockdown_priority:
  assumes "lockdown_active (box w)"
  shows "trigger_window_unlock w = w \<and>
         box (temporary_unlock w) = box w \<and>
         relay_pin (temporary_unlock w) = relay_pin w \<and>
         events (temporary_unlock w) =
           events w @ [Print ''[INFO] LOCKDOWN ACTIVE - IGNORING NORMAL UNLOCK'']"
  using assms by (simp add: trigger_window_unlock_def temporary_unlock_def print_def)

text \<open>C2 at the world right after a lockdown was entered from the start.\<close>

theorem lockdown_priority_witness:
  "lockdown_active (box (enter_lockdown world_init)) \<and>
   trigger_window_unlock (enter_lockdown world_init) = enter_lockdown world_init \<and>
   box (temporary_unlock (enter_lockdown world_init)) = box (enter_lockdown world_init) \<and>
   relay_pin (temporary_unlock (enter_lockdown world_init)) = LOW \<and>
   events (temporary_unlock (enter_lockdown world_init)) =
     [Relay LOW, Print ''[STATE] LOCKDOWN'',
      Print ''[INFO] LOCKDOWN ACTIVE - IGNORING NORMAL UNLOCK'']"
proof -
  have h: "lockdown_active (box (enter_lockdown world_init))"
    by (simp add: enter_lockdown_def prim_defs)
  show ?thesis
    using h lockdown_priority [OF h]
    by (simp add: enter_lockdown_def prim_defs world_init_def)
qed

text \<open>
  C3. The claim: \<open>enter_lockdown\<close> sets mode \<open>LOCKDOWN\<close> and the lockdown flag, locks
  the actuator, and leaves no window active. The code, entered while a window is open:
  mode, lockdown flag and relay are as claimed, but the window flag stays set. When the
  lockdown is then cleared, the relay is locked and \<open>temporary_unlock\<close> still refuses
  with the line that says the window is open. For any world, \<open>enter_lockdown_effect\<close>.
\<close>

theorem enter_lockdown_leaves_window_flag:
  "state (box (enter_lockdown (trigger_window_unlock world_init))) = LOCKDOWN \<and>
   lockdown_active (box (enter_lockdown (trigger_window_unlock world_init))) \<and>
   relay_pin (enter_lockdown (trigger_window_unlock world_init)) = LOW \<and>
   window_active (box (enter_lockdown (trigger_window_unlock world_init))) \<and>
   relay_pin (exit_lockdown (enter_lockdown (trigger_window_unlock world_init))) = LOW \<and>
   events (temporary_unlock (exit_lockdown (enter_lockdown (trigger_window_unlock world_init)))) =
     events (exit_lockdown (enter_lockdown (trigger_window_unlock world_init))) @
       [Print ''[INFO] WINDOW UNLOCK ACTIVE - NO NEED FOR TEMPORARY UNLOCK'']"
  by (simp add: init_defs op_defs prim_defs)

text \<open>
  C4. A key other than \<open>*\<close> that arrives as the fourth in the buffer runs
  \<open>process_code\<close> once, on the four characters, and leaves the buffer empty whatever
  the code was; one that arrives earlier is only appended. The key \<open>*\<close> empties the
  buffer at any length and runs no \<open>process_code\<close>. Between two keys the buffer always
  holds fewer than four characters and never a \<open>*\<close>.
\<close>

theorem buffer_reset_law:
  "(key \<noteq> CHR ''*'' \<and> length (buffer s) = 3 \<longrightarrow>
      StateMachineThread_step key s =
        s\<lparr>shared := process_code (buffer s @ [key]) (print (''[KEY] '' @ [key]) (shared s)),
          buffer := []\<rparr>) \<and>
   (key \<noteq> CHR ''*'' \<and> length (buffer s) < 3 \<longrightarrow>
      StateMachineThread_step key s =
        s\<lparr>shared := print (''[KEY] '' @ [key]) (shared s), buffer := buffer s @ [key]\<rparr>) \<and>
   StateMachineThread_step (CHR ''*'') s =
     s\<lparr>shared := print ''[BUFFER CLEARED]'' (print ''[KEY] *'' (shared s)), buffer := []\<rparr> \<and>
   length (buffer (exec sch system_init)) < 4 \<and>
   CHR ''*'' \<notin> set (buffer (exec sch system_init))"
  using buffer_reachable [of sch] by (simp add: StateMachineThread_step_def Let_def)

text \<open>C4 at the keys \<open>1234\<close>, \<open>123\<close> and \<open>123*\<close> from the start.\<close>

theorem buffer_reset_law_witness:
  "length (buffer (exec (map Key ''123'') system_init)) = 3 \<and>
   buffer (StateMachineThread_step (CHR ''4'') (exec (map Key ''123'') system_init)) = [] \<and>
   shared (StateMachineThread_step (CHR ''4'') (exec (map Key ''123'') system_init)) =
     process_code ''1234'' (print ''[KEY] 4'' (shared (exec (map Key ''123'') system_init))) \<and>
   length (buffer (exec (map Key ''12'') system_init)) < 3 \<and>
   buffer (StateMachineThread_step (CHR ''3'') (exec (map Key ''12'') system_init)) = ''123'' \<and>
   buffer (StateMachineThread_step (CHR ''*'') (exec (map Key ''123'') system_init)) = []"
  using buffer_reset_law [of "CHR ''4''" "exec (map Key ''123'') system_init" "[]"]
    buffer_reset_law [of "CHR ''3''" "exec (map Key ''12'') system_init" "[]"]
  by (simp add: init_defs StateMachineThread_step_def Let_def)

text \<open>
  C5. \<open>process_code\<close> compares with the lockdown code first and toggles the lockdown
  (exit when the flag is set, enter otherwise); else with the normal code, and calls
  \<open>temporary_unlock\<close>; any other buffer only prints the invalid-code line: the
  lockbox and the relay pin are unchanged and nothing is written to the relay.
\<close>

theorem classification_order:
  "(buf = LOCKDOWN_CODE \<longrightarrow>
      process_code buf w = (if lockdown_active (box w) then exit_lockdown w else enter_lockdown w)) \<and>
   (buf \<noteq> LOCKDOWN_CODE \<and> buf = NORMAL_CODE \<longrightarrow> process_code buf w = temporary_unlock w) \<and>
   (buf \<noteq> LOCKDOWN_CODE \<and> buf \<noteq> NORMAL_CODE \<longrightarrow>
      box (process_code buf w) = box w \<and>
      relay_pin (process_code buf w) = relay_pin w \<and>
      events (process_code buf w) = events w @ [Print ''[INFO] INVALID CODE''])"
  by (simp add: process_code_def print_def)

text \<open>C5 at the buffers \<open>9999\<close> (twice), \<open>1234\<close> and \<open>1111\<close>.\<close>

theorem classification_order_witness:
  "process_code ''9999'' world_init = enter_lockdown world_init \<and>
   process_code ''9999'' (enter_lockdown world_init) = exit_lockdown (enter_lockdown world_init) \<and>
   process_code ''1234'' world_init = temporary_unlock world_init \<and>
   box (process_code ''1111'' world_init) = box world_init \<and>
   relay_pin (process_code ''1111'' world_init) = LOW \<and>
   events (process_code ''1111'' world_init) = [Print ''[INFO] INVALID CODE'']"
proof -
  have off: "\<not> lockdown_active (box world_init)"
    by (simp add: init_defs)
  have on: "lockdown_active (box (enter_lockdown world_init))"
    by (simp add: enter_lockdown_def prim_defs)
  have start: "relay_pin world_init = LOW" "events world_init = []"
    by (simp_all add: init_defs)
  show ?thesis
    using classification_order [of "''9999''" world_init]
      classification_order [of "''9999''" "enter_lockdown world_init"]
      classification_order [of "''1234''" world_init]
      classification_order [of "''1111''" world_init]
      off on start
    by (simp add: LOCKDOWN_CODE_def NORMAL_CODE_def)
qed

text \<open>
  C6. In a reachable state with mode \<open>NORMAL\<close>, the lockdown flag clear and the buffer
  empty, the relay is locked; the keys \<open>9999\<close> run \<open>enter_lockdown\<close>; the next
  \<open>9999\<close> run \<open>exit_lockdown\<close>; after them the mode is \<open>NORMAL\<close>, the lockdown
  flag is clear and the relay is locked. With steps of the window thread among the eight
  keys the end is the same: \<open>toggle_law_interleaved\<close>.
\<close>

theorem toggle_law:
  assumes "s = exec sch system_init" and "buffer s = []"
    and "state (box (shared s)) = NORMAL" and "\<not> lockdown_active (box (shared s))"
  shows "relay_pin (shared s) = LOW \<and>
         shared (exec (map Key ''9999'') s) =
           enter_lockdown (fold (\<lambda>k. print (''[KEY] '' @ [k])) ''9999'' (shared s)) \<and>
         buffer (exec (map Key ''9999'') s) = [] \<and>
         shared (exec (map Key ''99999999'') s) =
           exit_lockdown (fold (\<lambda>k. print (''[KEY] '' @ [k])) ''9999''
             (shared (exec (map Key ''9999'') s))) \<and>
         state (box (shared (exec (map Key ''99999999'') s))) = NORMAL \<and>
         \<not> lockdown_active (box (shared (exec (map Key ''99999999'') s))) \<and>
         relay_pin (shared (exec (map Key ''99999999'') s)) = LOW"
proof -
  have "consistent (shared s)"
    using assms(1) consistent_reachable by simp
  then have "relay_pin (shared s) \<noteq> HIGH"
    using assms(3) by (simp add: consistent_def)
  then have locked: "relay_pin (shared s) = LOW"
    by (cases "relay_pin (shared s)") simp_all
  have first: "exec (map Key ''9999'') s =
      s\<lparr>shared := enter_lockdown (fold (\<lambda>k. print (''[KEY] '' @ [k])) ''9999'' (shared s))\<rparr>"
    using assms(2,4) by (simp add: thread_defs LOCKDOWN_CODE_def)
  have second: "exec (map Key ''99999999'') s = exec (map Key ''9999'') (exec (map Key ''9999'') s)"
    by simp
  have after: "exec (map Key ''9999'') (exec (map Key ''9999'') s) =
      s\<lparr>shared := exit_lockdown (fold (\<lambda>k. print (''[KEY] '' @ [k])) ''9999''
        (shared (exec (map Key ''9999'') s)))\<rparr>"
    unfolding first using assms(2)
    by (simp add: thread_defs LOCKDOWN_CODE_def enter_lockdown_def prim_defs)
  show ?thesis
    unfolding second after
    using locked first assms(2) by (simp add: exit_lockdown_def prim_defs)
qed

text \<open>C6 at the initial state.\<close>

theorem toggle_law_witness:
  "system_init = exec [] system_init \<and> buffer system_init = [] \<and>
   state (box (shared system_init)) = NORMAL \<and>
   \<not> lockdown_active (box (shared system_init)) \<and>
   relay_pin (shared system_init) = LOW \<and>
   state (box (shared (exec (map Key ''99999999'') system_init))) = NORMAL \<and>
   \<not> lockdown_active (box (shared (exec (map Key ''99999999'') system_init))) \<and>
   relay_pin (shared (exec (map Key ''99999999'') system_init)) = LOW"
proof -
  have h1: "system_init = exec [] system_init"
    by simp
  have h2: "buffer system_init = []"
    by (simp add: init_defs)
  have h3: "state (box (shared system_init)) = NORMAL"
    by (simp add: init_defs)
  have h4: "\<not> lockdown_active (box (shared system_init))"
    by (simp add: init_defs)
  show ?thesis
    using toggle_law [OF h1 h2 h3 h4] h2 h3 h4
    by (simp add: enter_lockdown_def exit_lockdown_def prim_defs)
qed

text \<open>
  C7. A lockdown entered while the window is open is followed by an
  \<open>end_window_unlock\<close> that leaves the relay locked. In the threads: when the window
  thread is in its open window, whatever keys the state machine thread handles meanwhile
  (a lockdown code among them or not), the window thread's next step is
  \<open>end_window_unlock\<close>, its last write to the relay is the lock, and the relay is
  locked after it.
\<close>

theorem window_end_relocks:
  "relay_pin (end_window_unlock (enter_lockdown (trigger_window_unlock w))) = LOW \<and>
   (wm_at s = WM_Open \<longrightarrow>
      shared (exec (map Key ks @ [Window]) s) = end_window_unlock (shared (exec (map Key ks) s)) \<and>
      relay_pin (shared (exec (map Key ks @ [Window]) s)) = LOW \<and>
      events (shared (exec (map Key ks @ [Window]) s)) =
        events (shared (exec (map Key ks) s)) @
          [Relay LOW, Print (''[STATE] WINDOW CLOSED '' @ arrow @ '' NORMAL MODE'')])"
  by (simp add: exec_append wm_at_keys WindowModeThread_step_def end_window_unlock_def prim_defs)

text \<open>C7 at an open window during which the keys \<open>9999\<close> enter the lockdown.\<close>

theorem window_end_relocks_witness:
  "wm_at (exec [Window, Window] system_init) = WM_Open \<and>
   relay_pin (shared (exec [Window, Window] system_init)) = HIGH \<and>
   lockdown_active (box (shared (exec (map Key ''9999'') (exec [Window, Window] system_init)))) \<and>
   relay_pin (shared (exec (map Key ''9999'' @ [Window]) (exec [Window, Window] system_init))) = LOW"
  using window_end_relocks [of world_init "exec [Window, Window] system_init" "''9999''"]
  by (simp add: init_defs thread_defs op_defs prim_defs LOCKDOWN_CODE_def)

text \<open>
  C8. The claim: every rejected request is logged, a window trigger during lockdown
  included. The code, in lockdown: \<open>trigger_window_unlock\<close> adds nothing to the trace.
\<close>

theorem trigger_in_lockdown_is_silent:
  "lockdown_active (box (enter_lockdown world_init)) \<and>
   events (trigger_window_unlock (enter_lockdown world_init)) = events (enter_lockdown world_init)"
  by (simp add: op_defs prim_defs)

text \<open>
  C8, as the code has it: a \<open>temporary_unlock\<close> during lockdown prints the lockdown
  line, one during a window (lockdown off) prints the window line, each and nothing else;
  a window trigger during lockdown is dropped without a line, both inside
  \<open>trigger_window_unlock\<close> and where the window thread reads the flag before the call.
\<close>

theorem conflicting_requests:
  "(lockdown_active (box w) \<longrightarrow>
      events (temporary_unlock w) =
        events w @ [Print ''[INFO] LOCKDOWN ACTIVE - IGNORING NORMAL UNLOCK'']) \<and>
   (\<not> lockdown_active (box w) \<and> window_active (box w) \<longrightarrow>
      events (temporary_unlock w) =
        events w @ [Print ''[INFO] WINDOW UNLOCK ACTIVE - NO NEED FOR TEMPORARY UNLOCK'']) \<and>
   (lockdown_active (box w) \<longrightarrow> trigger_window_unlock w = w) \<and>
   (lockdown_active (box (shared s)) \<and> wm_at s = WM_Interval \<longrightarrow> WindowModeThread_step s = s)"
  by (simp add: temporary_unlock_def trigger_window_unlock_def print_def WindowModeThread_step_def)

text \<open>C8 as amended, at a lockdown entered from the start and at a window opened from the start.\<close>

theorem conflicting_requests_witness:
  "lockdown_active (box (enter_lockdown world_init)) \<and>
   events (temporary_unlock (enter_lockdown world_init)) =
     events (enter_lockdown world_init) @
       [Print ''[INFO] LOCKDOWN ACTIVE - IGNORING NORMAL UNLOCK''] \<and>
   trigger_window_unlock (enter_lockdown world_init) = enter_lockdown world_init \<and>
   \<not> lockdown_active (box (trigger_window_unlock world_init)) \<and>
   window_active (box (trigger_window_unlock world_init)) \<and>
   events (temporary_unlock (trigger_window_unlock world_init)) =
     events (trigger_window_unlock world_init) @
       [Print ''[INFO] WINDOW UNLOCK ACTIVE - NO NEED FOR TEMPORARY UNLOCK''] \<and>
   lockdown_active (box (shared (exec (map Key ''9999'') system_init))) \<and>
   wm_at (exec (map Key ''9999'') system_init) = WM_Interval \<and>
   WindowModeThread_step (exec (map Key ''9999'') system_init) =
     exec (map Key ''9999'') system_init"
  using conflicting_requests [of "enter_lockdown world_init" "exec (map Key ''9999'') system_init"]
    conflicting_requests [of "trigger_window_unlock world_init" system_init]
  by (simp add: init_defs thread_defs op_defs prim_defs LOCKDOWN_CODE_def)


text \<open>
  C10. With both flags clear, \<open>temporary_unlock\<close> is the unlock, the line, the sleep,
  the relock and the line, in this order; the lockbox is the same after each of them and
  at the end, the relay ends locked, and in a reachable world the mode is \<open>NORMAL\<close>.
\<close>

theorem temporary_unlock_frame:
  assumes "\<not> lockdown_active (box w)" and "\<not> window_active (box w)"
  shows "temporary_unlock w =
           print (''[STATE] TEMPORARY UNLOCK ENDED '' @ arrow @ '' NORMAL MODE'')
             (RelayControl_lock (sleep TEMP_UNLOCK_TIME
               (print ''[STATE] TEMPORARY UNLOCK for 10 seconds'' (RelayControl_unlock w)))) \<and>
         box (RelayControl_unlock w) = box w \<and>
         box (print ''[STATE] TEMPORARY UNLOCK for 10 seconds'' (RelayControl_unlock w)) = box w \<and>
         box (sleep TEMP_UNLOCK_TIME
               (print ''[STATE] TEMPORARY UNLOCK for 10 seconds'' (RelayControl_unlock w))) = box w \<and>
         box (RelayControl_lock (sleep TEMP_UNLOCK_TIME
               (print ''[STATE] TEMPORARY UNLOCK for 10 seconds'' (RelayControl_unlock w)))) = box w \<and>
         box (temporary_unlock w) = box w \<and>
         relay_pin (temporary_unlock w) = LOW \<and>
         events (temporary_unlock w) =
           events w @ [Relay HIGH, Print ''[STATE] TEMPORARY UNLOCK for 10 seconds'',
             Sleep 10, Relay LOW,
             Print (''[STATE] TEMPORARY UNLOCK ENDED '' @ arrow @ '' NORMAL MODE'')] \<and>
         (w = shared (exec sch system_init) \<longrightarrow> state (box w) = NORMAL)"
proof -
  have "state (box w) = NORMAL" if "w = shared (exec sch system_init)"
  proof -
    have "consistent w" using that consistent_reachable by simp
    then show ?thesis using assms by (auto simp add: consistent_def)
  qed
  then show ?thesis
    using assms
    by (simp add: temporary_unlock_def prim_defs str_nat_10 TEMP_UNLOCK_TIME_def)
qed

text \<open>C10 at the initial world.\<close>

theorem temporary_unlock_frame_witness:
  "\<not> lockdown_active (box world_init) \<and> \<not> window_active (box world_init) \<and>
   world_init = shared (exec [] system_init) \<and>
   box (temporary_unlock world_init) = box world_init \<and>
   state (box (temporary_unlock world_init)) = NORMAL \<and>
   relay_pin (temporary_unlock world_init) = LOW \<and>
   events (temporary_unlock world_init) =
     [Relay HIGH, Print ''[STATE] TEMPORARY UNLOCK for 10 seconds'', Sleep 10, Relay LOW,
      Print (''[STATE] TEMPORARY UNLOCK ENDED '' @ arrow @ '' NORMAL MODE'')]"
proof -
  have h1: "\<not> lockdown_active (box world_init)"
    by (simp add: init_defs)
  have h2: "\<not> window_active (box world_init)"
    by (simp add: init_defs)
  have h3: "world_init = shared (exec [] system_init)"
    by (simp add: system_init_def)
  have start: "events world_init = []"
    by (simp add: init_defs)
  show ?thesis
    using temporary_unlock_frame [OF h1 h2, of "[]"] h1 h2 h3 start
    by (simp add: prim_defs TEMP_UNLOCK_TIME_def)
qed

end
